theory Spec2Isabelle
  imports Complex_Main "HOL-Library.AList"
begin

section \<open>Data model (types.ts, as used by App.tsx and IsometricGraph.tsx)\<close>

text \<open>
  The graph document: nodes on four ordered layers and links between them. A JavaScript
  number is modelled as a real (exact arithmetic, no rounding, no overflow), except for
  the layer, which the data source declares an integer. A plain object used as a
  dictionary (\<^verbatim>\<open>Record<string, T>\<close>) is modelled by its own keys only.
\<close>

datatype LayerType = OBJECTIVE | REQUIREMENT | COURSE | KNOWLEDGE

record NodeData =
  nodeId :: string
  label :: string
  layer :: int
  nodeType :: LayerType
  description :: "string option"

text \<open>
  A link endpoint is a bare id or an already dereferenced node object; every consumer
  normalises it with \<^verbatim>\<open>typeof l.source === 'object' ? l.source.id : l.source\<close>.
\<close>

datatype Endpoint = IdRef string | NodeRef NodeData

fun endpointId :: "Endpoint \<Rightarrow> string" where
  "endpointId (IdRef s) = s"
| "endpointId (NodeRef n) = nodeId n"

record LinkData =
  source :: Endpoint
  target :: Endpoint

record GraphData =
  nodes :: "NodeData list"
  links :: "LinkData list"

text \<open>JavaScript truthiness of a string, and of a string that may be null.\<close>

definition truthyStr :: "string \<Rightarrow> bool" where
  "truthyStr s = (s \<noteq> [])"

fun truthy :: "string option \<Rightarrow> bool" where
  "truthy None = False"
| "truthy (Some s) = truthyStr s"

section \<open>Visibility filter: displayNodes (IsometricGraph.tsx)\<close>

text \<open>\<^verbatim>\<open>counts[k] = (counts[k] || 0) + 1\<close>\<close>

definition bumpCount :: "(string \<rightharpoonup> nat) \<Rightarrow> string \<Rightarrow> (string \<rightharpoonup> nat)" where
  "bumpCount cc k = cc(k \<mapsto> (case cc k of None \<Rightarrow> 0 | Some c \<Rightarrow> c) + 1)"

definition countLink :: "LinkData \<Rightarrow> (string \<rightharpoonup> nat) \<Rightarrow> (string \<rightharpoonup> nat)" where
  "countLink l cc =
     (let s = endpointId (source l);
          t = endpointId (target l)
      in bumpCount (bumpCount cc s) t)"

definition connectionCounts :: "LinkData list \<Rightarrow> (string \<rightharpoonup> nat)" where
  "connectionCounts ls = fold countLink ls Map.empty"

text \<open>\<^verbatim>\<open>connectionCounts[n.id] || 0\<close>\<close>

definition degreeOf :: "LinkData list \<Rightarrow> string \<Rightarrow> nat" where
  "degreeOf ls k = (case connectionCounts ls k of None \<Rightarrow> 0 | Some c \<Rightarrow> c)"

definition isDisplayed ::
  "GraphData \<Rightarrow> bool \<Rightarrow> string option \<Rightarrow> string set \<Rightarrow> NodeData \<Rightarrow> bool" where
  "isDisplayed data showAllKnowledge selectedNodeId focusChain n =
     (if truthy selectedNodeId \<and> nodeId n \<in> focusChain then True
      else if layer n \<noteq> 3 then True
      else if showAllKnowledge then True
      else degreeOf (links data) (nodeId n) > 1)"

definition displayNodes ::
  "GraphData \<Rightarrow> bool \<Rightarrow> string option \<Rightarrow> string set \<Rightarrow> NodeData list" where
  "displayNodes data showAllKnowledge selectedNodeId focusChain =
     filter (isDisplayed data showAllKnowledge selectedNodeId focusChain) (nodes data)"

section \<open>Lineage: the focus-chain effect (IsometricGraph.tsx)\<close>

text \<open>\<^verbatim>\<open>new Map(data.nodes.map(n => [n.id, n]))\<close>: a later node with the same id wins.\<close>

definition nodeMap :: "GraphData \<Rightarrow> (string \<rightharpoonup> NodeData)" where
  "nodeMap data = map_of (rev (map (\<lambda>n. (nodeId n, n)) (nodes data)))"

text \<open>
  \<^verbatim>\<open>parentsMap\<close> and \<^verbatim>\<open>childrenMap\<close>: objects from id to id array, kept as
  association lists. \<open>adjGet\<close> is \<^verbatim>\<open>m[k] || []\<close>; \<open>adjPush\<close> is
  \<^verbatim>\<open>if (!m[k]) m[k] = []; m[k].push(v)\<close>.
\<close>

type_synonym AdjMap = "(string \<times> string list) list"

definition adjGet :: "AdjMap \<Rightarrow> string \<Rightarrow> string list" where
  "adjGet m k = (case map_of m k of None \<Rightarrow> [] | Some vs \<Rightarrow> vs)"

definition adjPush :: "AdjMap \<Rightarrow> string \<Rightarrow> string \<Rightarrow> AdjMap" where
  "adjPush m k v = AList.update k (adjGet m k @ [v]) m"

text \<open>
  The orientation of one link: \<open>Some (parentId, childId)\<close> when both endpoints resolve,
  their layers differ and the guard \<^verbatim>\<open>if (parentId && childId)\<close> passes.
\<close>

definition orientLink :: "(string \<rightharpoonup> NodeData) \<Rightarrow> LinkData \<Rightarrow> (string \<times> string) option" where
  "orientLink nm l =
     (let sId = endpointId (source l);
          tId = endpointId (target l)
      in case nm sId of
           None \<Rightarrow> None
         | Some sNode \<Rightarrow>
             (case nm tId of
                None \<Rightarrow> None
              | Some tNode \<Rightarrow>
                  (let (parentId, childId) =
                         (if layer sNode < layer tNode then (Some sId, Some tId)
                          else if layer tNode < layer sNode then (Some tId, Some sId)
                          else (None, None))
                   in if truthy parentId \<and> truthy childId
                      then (case (parentId, childId) of
                              (Some p, Some c) \<Rightarrow> Some (p, c)
                            | _ \<Rightarrow> None)
                      else None)))"

definition addLink :: "(string \<rightharpoonup> NodeData) \<Rightarrow> LinkData \<Rightarrow> AdjMap \<times> AdjMap \<Rightarrow> AdjMap \<times> AdjMap" where
  "addLink nm l maps =
     (case orientLink nm l of
        None \<Rightarrow> maps
      | Some (parentId, childId) \<Rightarrow>
          (adjPush (fst maps) childId parentId, adjPush (snd maps) parentId childId))"

definition buildMaps :: "GraphData \<Rightarrow> AdjMap \<times> AdjMap" where
  "buildMaps data = fold (addLink (nodeMap data)) (links data) ([], [])"

text \<open>
  The inner \<^verbatim>\<open>for (const p of parents)\<close> loop of a traversal, on the triple
  (visited, lineage, queue).
\<close>

fun visitAll :: "string list \<Rightarrow> string set \<times> string set \<times> string list
                  \<Rightarrow> string set \<times> string set \<times> string list" where
  "visitAll [] st = st"
| "visitAll (p # ps) (visited, lineage, queue) =
     (if p \<notin> visited
      then visitAll ps (insert p visited, insert p lineage, queue @ [p])
      else visitAll ps (visited, lineage, queue))"

text \<open>All ids stored as values of an adjacency object.\<close>

definition adjValues :: "AdjMap \<Rightarrow> string set" where
  "adjValues m = (\<Union>kv \<in> set m. set (snd kv))"

text \<open>
  The \<^verbatim>\<open>while (queue.length > 0)\<close> loop; both traversals (up, over
  \<^verbatim>\<open>parentsMap\<close>, and down, over \<^verbatim>\<open>childrenMap\<close>) have this shape. It returns the
  lineage set.
\<close>

function traverse :: "AdjMap \<Rightarrow> string set \<Rightarrow> string set \<Rightarrow> string list \<Rightarrow> string set" where
  "traverse m visited lineage [] = lineage"
| "traverse m visited lineage (cur # queue) =
     (case visitAll (adjGet m cur) (visited, lineage, queue) of
        (visited', lineage', queue') \<Rightarrow> traverse m visited' lineage' queue')"
  by pat_completeness auto
termination
proof (relation "measures [\<lambda>(m, visited, lineage, queue). card (adjValues m - visited),
                           \<lambda>(m, visited, lineage, queue). length queue]")
  show "wf (measures [\<lambda>(m, visited, lineage, queue). card (adjValues m - visited),
                      \<lambda>(m, visited, lineage, queue). length queue])"
    by simp
next
  fix m :: AdjMap and visited lineage visited' lineage' :: "string set" and cur :: string
    and queue queue' :: "string list" and r' :: "string set \<times> string list"
  assume r1: "(visited', r') = visitAll (adjGet m cur) (visited, lineage, queue)"
    and r2: "(lineage', queue') = r'"
  have step: "fst (visitAll ps (V, L, Q)) = V \<union> set ps
              \<and> (set ps \<subseteq> V \<longrightarrow> snd (snd (visitAll ps (V, L, Q))) = Q)"
    for ps V L Q
    by (induction ps arbitrary: V L Q) auto
  have fin: "finite (adjValues m)"
    by (simp add: adjValues_def)
  have sub: "set (adjGet m cur) \<subseteq> adjValues m"
  proof
    fix v assume "v \<in> set (adjGet m cur)"
    then obtain vs where "map_of m cur = Some vs" "v \<in> set vs"
      by (cases "map_of m cur") (auto simp: adjGet_def)
    then have "(cur, vs) \<in> set m" "v \<in> set vs"
      by (auto dest: map_of_SomeD)
    then show "v \<in> adjValues m"
      by (force simp: adjValues_def)
  qed
  have v': "visited' = visited \<union> set (adjGet m cur)"
    using step [of "adjGet m cur" visited lineage queue] r1 by (metis fst_conv)
  show "((m, visited', lineage', queue'), (m, visited, lineage, cur # queue))
        \<in> measures [\<lambda>(m, visited, lineage, queue). card (adjValues m - visited),
                     \<lambda>(m, visited, lineage, queue). length queue]"
  proof (cases "set (adjGet m cur) \<subseteq> visited")
    case True
    then have "queue' = queue"
      using step [of "adjGet m cur" visited lineage queue] r1 r2 by (metis snd_conv)
    moreover have "visited' = visited" using v' True by auto
    ultimately show ?thesis by simp
  next
    case False
    then obtain p where p: "p \<in> set (adjGet m cur)" "p \<notin> visited" by auto
    have "adjValues m - visited' \<subset> adjValues m - visited"
      using p sub v' by auto
    then have "card (adjValues m - visited') < card (adjValues m - visited)"
      using fin by (simp add: psubset_card_mono)
    then show ?thesis by simp
  qed
qed

text \<open>
  The first part of the selection effect: the value given to \<^verbatim>\<open>setFocusChain\<close>.
\<close>

definition focusChainOf :: "GraphData \<Rightarrow> string option \<Rightarrow> string set" where
  "focusChainOf data selectedNodeId =
     (case selectedNodeId of
        None \<Rightarrow> {}
      | Some sel \<Rightarrow>
          if \<not> truthyStr sel then {}
          else (let (parentsMap, childrenMap) = buildMaps data;
                    lineage0 = {sel};
                    lineage1 = traverse parentsMap {sel} lineage0 [sel];
                    lineage2 = traverse childrenMap {sel} lineage1 [sel]
                in lineage2))"

section \<open>Camera: target rotation on selection and the animation loop\<close>

text \<open>\<^verbatim>\<open>Array.prototype.indexOf\<close>: the first position of the element, or -1.\<close>

fun indexOf :: "'a list \<Rightarrow> 'a \<Rightarrow> int" where
  "indexOf [] a = - 1"
| "indexOf (b # bs) a =
     (if b = a then 0 else (let r = indexOf bs a in if r = - 1 then - 1 else r + 1))"

text \<open>\<^verbatim>\<open>while (targetR - currentRot > Math.PI) targetR -= twoPi;\<close>\<close>

function targetDown :: "real \<Rightarrow> real \<Rightarrow> real" where
  "targetDown currentRot targetR =
     (if targetR - currentRot > pi then targetDown currentRot (targetR - pi * 2) else targetR)"
  by pat_completeness auto
termination
proof (relation "measure (\<lambda>(c, t). nat \<lceil>(t - c) / (2 * pi)\<rceil>)")
  show "wf (measure (\<lambda>(c, t). nat \<lceil>(t - c) / (2 * pi)\<rceil>))" by simp
next
  fix c t :: real
  assume gt: "pi < t - c"
  have eq: "(t - pi * 2 - c) / (2 * pi) = (t - c) / (2 * pi) - 1"
    by (simp add: field_simps)
  have "0 < t - c" using gt pi_gt_zero by linarith
  then have "0 < (t - c) / (2 * pi)" by simp
  then have pos: "0 < \<lceil>(t - c) / (2 * pi)\<rceil>" by linarith
  have "\<lceil>(t - pi * 2 - c) / (2 * pi)\<rceil> = \<lceil>(t - c) / (2 * pi)\<rceil> - 1"
    unfolding eq by linarith
  with pos show "((c, t - pi * 2), (c, t)) \<in> measure (\<lambda>(c, t). nat \<lceil>(t - c) / (2 * pi)\<rceil>)"
    by simp
qed

text \<open>\<^verbatim>\<open>while (targetR - currentRot < -Math.PI) targetR += twoPi;\<close>\<close>

function targetUp :: "real \<Rightarrow> real \<Rightarrow> real" where
  "targetUp currentRot targetR =
     (if targetR - currentRot < - pi then targetUp currentRot (targetR + pi * 2) else targetR)"
  by pat_completeness auto
termination
proof (relation "measure (\<lambda>(c, t). nat \<lceil>(c - t) / (2 * pi)\<rceil>)")
  show "wf (measure (\<lambda>(c, t). nat \<lceil>(c - t) / (2 * pi)\<rceil>))" by simp
next
  fix c t :: real
  assume lt: "t - c < - pi"
  have eq: "(c - (t + pi * 2)) / (2 * pi) = (c - t) / (2 * pi) - 1"
    by (simp add: field_simps)
  have "0 < c - t" using lt pi_gt_zero by linarith
  then have "0 < (c - t) / (2 * pi)" by simp
  then have pos: "0 < \<lceil>(c - t) / (2 * pi)\<rceil>" by linarith
  have "\<lceil>(c - (t + pi * 2)) / (2 * pi)\<rceil> = \<lceil>(c - t) / (2 * pi)\<rceil> - 1"
    unfolding eq by linarith
  with pos show "((c, t + pi * 2), (c, t)) \<in> measure (\<lambda>(c, t). nat \<lceil>(c - t) / (2 * pi)\<rceil>)"
    by simp
qed

declare targetDown.simps [simp del] targetUp.simps [simp del]

text \<open>
  The second part of the selection effect: the new value of \<^verbatim>\<open>targetRotation.current\<close>,
  from the document, the selection, \<^verbatim>\<open>rotationRef.current\<close> and the old target (kept
  when the selected id names no node).
\<close>

definition selectionTarget :: "GraphData \<Rightarrow> string option \<Rightarrow> real \<Rightarrow> real option \<Rightarrow> real option" where
  "selectionTarget data selectedNodeId currentRot oldTarget =
     (if \<not> truthy selectedNodeId then None
      else case find (\<lambda>n. Some (nodeId n) = selectedNodeId) (nodes data) of
             None \<Rightarrow> oldTarget
           | Some targetNode \<Rightarrow>
               (let layerNodes = filter (\<lambda>n. layer n = layer targetNode) (nodes data);
                    count = length layerNodes;
                    layerIndex = layer targetNode;
                    nodeIndex0 = indexOf layerNodes targetNode;
                    nodeIndex = (if nodeIndex0 = - 1 then 0 else nodeIndex0);
                    theta = (if layerIndex = 3
                             then real_of_int nodeIndex * (pi * (3 - sqrt 5))
                             else real_of_int nodeIndex * ((pi * 2) / real count)
                                  + real_of_int layerIndex * (pi / 4));
                    targetR = (pi / 2) - theta
                in Some (targetUp currentRot (targetDown currentRot targetR))))"






section \<open>Layout: nodes3D\<close>

definition LAYER_GAP :: real where "LAYER_GAP = 180"
definition BASE_RADIUS_TOP :: real where "BASE_RADIUS_TOP = 80"
definition RADIUS_INCREMENT :: real where "RADIUS_INCREMENT = 140"
definition FOCAL_LENGTH :: real where "FOCAL_LENGTH = 1200"

definition getLayerRadius :: "int \<Rightarrow> real" where
  "getLayerRadius l = BASE_RADIUS_TOP + (real_of_int l * RADIUS_INCREMENT)"

record Point3D =
  x :: real
  y :: real
  z :: real

text \<open>\<^verbatim>\<open>NodeData & Point3D\<close>: the spread node with its coordinates.\<close>

record Node3D = Point3D +
  node :: NodeData

text \<open>The body of \<^verbatim>\<open>layerNodes.forEach((node, i) => ...)\<close>.\<close>

definition placeNode :: "int \<Rightarrow> nat \<Rightarrow> nat \<Rightarrow> NodeData \<Rightarrow> Node3D" where
  "placeNode layerIndex count i nd =
     (let isRandomScatter = (layerIndex = 3);
          yv = (real_of_int layerIndex - 1.5) * LAYER_GAP;
          radiusBase = getLayerRadius layerIndex;
          (theta, radius) =
            (if isRandomScatter
             then (real i * (pi * (3 - sqrt 5)),
                   radiusBase + (sqrt (real i / real count) * 80))
             else (real i * ((pi * 2) / real count) + real_of_int layerIndex * (pi / 4),
                   radiusBase))
      in \<lparr>x = radius * cos theta, y = yv, z = radius * sin theta, node = nd\<rparr>)"

text \<open>
  The four buckets \<^verbatim>\<open>{0: [], 1: [], 2: [], 3: []}\<close> are filled in document order (a node
  of another layer is dropped by \<^verbatim>\<open>layers[n.layer]?.push(n)\<close>) and laid out in key order.
\<close>

definition layoutLayer :: "NodeData list \<Rightarrow> int \<Rightarrow> Node3D list" where
  "layoutLayer displayed layerIndex =
     (let layerNodes = filter (\<lambda>n. layer n = layerIndex) displayed;
          count = length layerNodes
      in map (\<lambda>(i, nd). placeNode layerIndex count i nd) (enumerate 0 layerNodes))"

definition nodes3D :: "NodeData list \<Rightarrow> Node3D list" where
  "nodes3D displayed = concat (map (layoutLayer displayed) [0, 1, 2, 3])"

section \<open>Projection: project\<close>

text \<open>The fields \<^verbatim>\<open>x\<close> and \<^verbatim>\<open>y\<close> of \<^verbatim>\<open>Point2D\<close> are written \<open>x2\<close> and \<open>y2\<close>.\<close>

record Point2D =
  x2 :: real
  y2 :: real
  scale :: real
  zIndex :: real

definition project :: "real \<Rightarrow> real \<Rightarrow> 'a Point3D_scheme \<Rightarrow> real \<Rightarrow> Point2D" where
  "project width height point angleY =
     (let c = cos angleY;
          s = sin angleY;
          rx = x point * c - z point * s;
          rz = z point * c + x point * s;
          ry = y point;
          cameraZ = rz + FOCAL_LENGTH;
          sc = FOCAL_LENGTH / max cameraZ 10
      in \<lparr>x2 = width / 2 + rx * sc, y2 = height / 2 + ry * sc, scale = sc, zIndex = rz\<rparr>)"

section \<open>Rendered links: activeLinks\<close>

record ProjectedNode = Node3D +
  projected :: Point2D

definition projectedNodes :: "real \<Rightarrow> real \<Rightarrow> Node3D list \<Rightarrow> real \<Rightarrow> ProjectedNode list" where
  "projectedNodes width height ns rot =
     map (\<lambda>n. Node3D.extend n (ProjectedNode.fields (project width height n rot))) ns"

record ActiveLink =
  linkId :: string
  sNode :: ProjectedNode
  tNode :: ProjectedNode
  avgZ :: real
  isHighlighted :: bool

datatype JsError = TypeError

text \<open>
  The callback of \<^verbatim>\<open>data.links.map\<close>: \<open>Inr None\<close> is \<^verbatim>\<open>null\<close>; reading
  \<^verbatim>\<open>.projected\<close> of a node that \<^verbatim>\<open>find\<close> did not return would throw.
\<close>

definition linkEntry ::
  "ProjectedNode list \<Rightarrow> string option \<Rightarrow> string set \<Rightarrow> LinkData \<Rightarrow> JsError + ActiveLink option" where
  "linkEntry pns selectedNodeId focusChain link =
     (let activeNodeIds = set (map (\<lambda>n. nodeId (node n)) pns);
          sId = endpointId (source link);
          tId = endpointId (target link)
      in if sId \<notin> activeNodeIds \<or> tId \<notin> activeNodeIds then Inr None
         else (let sN = find (\<lambda>n. nodeId (node n) = sId) pns;
                   tN = find (\<lambda>n. nodeId (node n) = tId) pns;
                   (isVisible, highlighted) =
                     (if truthy selectedNodeId
                      then (if sId \<in> focusChain \<and> tId \<in> focusChain then (True, True)
                            else (False, False))
                      else (True, False))
               in if \<not> isVisible then Inr None
                  else (case (sN, tN) of
                          (Some sn, Some tn) \<Rightarrow>
                            Inr (Some \<lparr>linkId = sId @ ''-'' @ tId, sNode = sn, tNode = tn,
                                       avgZ = (zIndex (projected sn) + zIndex (projected tn)) / 2,
                                       isHighlighted = highlighted\<rparr>)
                        | _ \<Rightarrow> Inl TypeError)))"

text \<open>\<^verbatim>\<open>.filter(Boolean)\<close> over the mapped array; a throw inside the callback aborts.\<close>

fun collectEntries :: "(JsError + ActiveLink option) list \<Rightarrow> JsError + ActiveLink list" where
  "collectEntries [] = Inr []"
| "collectEntries (Inl e # rest) = Inl e"
| "collectEntries (Inr None # rest) = collectEntries rest"
| "collectEntries (Inr (Some a) # rest) =
     (case collectEntries rest of Inl e \<Rightarrow> Inl e | Inr as \<Rightarrow> Inr (a # as))"

definition activeLinks ::
  "GraphData \<Rightarrow> ProjectedNode list \<Rightarrow> string option \<Rightarrow> string set \<Rightarrow> JsError + ActiveLink list" where
  "activeLinks data pns selectedNodeId focusChain =
     (case collectEntries (map (linkEntry pns selectedNodeId focusChain) (links data)) of
        Inl e \<Rightarrow> Inl e
      | Inr als \<Rightarrow> Inr (sort_key avgZ als))"

text \<open>The links drawn by one render: filter, layout, projection, then link selection.\<close>

definition renderedLinks ::
  "GraphData \<Rightarrow> real \<Rightarrow> real \<Rightarrow> bool \<Rightarrow> string option \<Rightarrow> string set \<Rightarrow> real
   \<Rightarrow> JsError + ActiveLink list" where
  "renderedLinks data width height showAllKnowledge selectedNodeId focusChain rot =
     activeLinks data
       (projectedNodes width height
          (nodes3D (displayNodes data showAllKnowledge selectedNodeId focusChain)) rot)
       selectedNodeId focusChain"

section \<open>Application state: handleGenerate and directRelations (App.tsx)\<close>

datatype GenerationError = GenerationError string

text \<open>The one user notification of the application, \<^verbatim>\<open>alert(...)\<close> in the catch block.\<close>

datatype Notification = GenerationFailedAlert

text \<open>
  The state of the component, with two logs of its effects: the alerts shown and the
  arguments of the calls made to \<^verbatim>\<open>generateCurriculumData\<close>.
\<close>

record AppState =
  appData :: GraphData
  selectedNode :: "NodeData option"
  majorInput :: string
  isLoading :: bool
  alerts :: "Notification list"
  generatorCalls :: "string list"

text \<open>
  \<^verbatim>\<open>handleGenerate\<close>, run to completion; \<open>generate\<close> is the outcome of awaiting the
  external generator on an input.
\<close>

definition handleGenerate :: "(string \<Rightarrow> GenerationError + GraphData) \<Rightarrow> AppState \<Rightarrow> AppState" where
  "handleGenerate generate st =
     (if \<not> truthyStr (majorInput st) then st
      else (let st1 = st\<lparr>isLoading := True\<rparr>;
                st2 = st1\<lparr>generatorCalls := generatorCalls st1 @ [majorInput st1]\<rparr>;
                st3 = (case generate (majorInput st1) of
                         Inr newData \<Rightarrow> st2\<lparr>appData := newData, selectedNode := None\<rparr>
                       | Inl err \<Rightarrow> st2\<lparr>alerts := alerts st2 @ [GenerationFailedAlert]\<rparr>)
            in st3\<lparr>isLoading := False\<rparr>))"

record Relations =
  upstream :: "NodeData list"
  downstream :: "NodeData list"
  relevantLinks :: "LinkData list"

text \<open>The body of \<^verbatim>\<open>data.links.forEach\<close> in \<^verbatim>\<open>directRelations\<close>.\<close>

definition relateLink :: "GraphData \<Rightarrow> NodeData \<Rightarrow> LinkData \<Rightarrow> Relations \<Rightarrow> Relations" where
  "relateLink data sel l r =
     (let sId = endpointId (source l);
          tId = endpointId (target l);
          otherId = (if tId = nodeId sel then Some sId
                     else if sId = nodeId sel then Some tId
                     else None)
      in if truthy otherId
         then (case find (\<lambda>n. Some (nodeId n) = otherId) (nodes data) of
                 Some otherNode \<Rightarrow>
                   (let r1 = (if layer otherNode < layer sel
                              then r\<lparr>upstream := upstream r @ [otherNode]\<rparr>
                              else if layer otherNode > layer sel
                              then r\<lparr>downstream := downstream r @ [otherNode]\<rparr>
                              else r)
                    in r1\<lparr>relevantLinks := relevantLinks r1 @ [l]\<rparr>)
               | None \<Rightarrow> r)
         else r)"

definition directRelations :: "GraphData \<Rightarrow> NodeData option \<Rightarrow> Relations" where
  "directRelations data sel =
     (case sel of
        None \<Rightarrow> \<lparr>upstream = [], downstream = [], relevantLinks = []\<rparr>
      | Some s \<Rightarrow>
          fold (relateLink data s) (links data)
            \<lparr>upstream = [], downstream = [], relevantLinks = []\<rparr>)"

section \<open>Reference descriptions used in the statements\<close>

text \<open>
  The direct neighbour that a link gives to the selected node: the node found for the
  other endpoint's id, when that id is a non-empty string.
\<close>

definition neighbourOf :: "GraphData \<Rightarrow> NodeData \<Rightarrow> LinkData \<Rightarrow> NodeData option" where
  "neighbourOf data sel l =
     (if endpointId (target l) = nodeId sel
      then (if endpointId (source l) = [] then None
            else find (\<lambda>n. nodeId n = endpointId (source l)) (nodes data))
      else if endpointId (source l) = nodeId sel
      then (if endpointId (target l) = [] then None
            else find (\<lambda>n. nodeId n = endpointId (target l)) (nodes data))
      else None)"

text \<open>What the callback returns, with the impossible throw ruled out.\<close>

definition entryOf :: "ProjectedNode list \<Rightarrow> string option \<Rightarrow> string set \<Rightarrow> LinkData \<Rightarrow> ActiveLink option" where
  "entryOf pns sel fc l = (case linkEntry pns sel fc l of Inr e \<Rightarrow> e | Inl err \<Rightarrow> None)"




section \<open>Example documents\<close>

definition mkNode :: "string \<Rightarrow> int \<Rightarrow> NodeData" where
  "mkNode i l = \<lparr>nodeId = i, label = i, layer = l, nodeType = KNOWLEDGE, description = None\<rparr>"

definition mkLink :: "string \<Rightarrow> string \<Rightarrow> LinkData" where
  "mkLink s t = \<lparr>source = IdRef s, target = IdRef t\<rparr>"

text \<open>A layer-3 node with a single link.\<close>

definition leafDoc :: GraphData where
  "leafDoc = \<lparr>nodes = [mkNode ''c1'' 2, mkNode ''k1'' 3], links = [mkLink ''k1'' ''c1'']\<rparr>"


text \<open>A node of layer 1 linked to a node of layer 0, one of layer 1 and one of layer 2.\<close>

definition starDoc :: GraphData where
  "starDoc = \<lparr>nodes = [mkNode ''a'' 0, mkNode ''b'' 1, mkNode ''b2'' 1, mkNode ''c'' 2],
              links = [mkLink ''b'' ''a'', mkLink ''b2'' ''b'', mkLink ''c'' ''b'']\<rparr>"

text \<open>A node of layer 0 whose id is the empty string, linked to a node of layer 1.\<close>

definition emptyIdDoc :: GraphData where
  "emptyIdDoc = \<lparr>nodes = [mkNode [] 0, mkNode ''b'' 1], links = [mkLink [] ''b'']\<rparr>"

text \<open>Two layer-3 nodes with one link each, to the same course.\<close>

definition maskedDoc :: GraphData where
  "maskedDoc = \<lparr>nodes = [mkNode ''c1'' 2, mkNode ''k1'' 3, mkNode ''k2'' 3],
                links = [mkLink ''k1'' ''c1'', mkLink ''k2'' ''c1'']\<rparr>"

definition idleApp :: AppState where
  "idleApp = \<lparr>appData = leafDoc, selectedNode = Some (mkNode ''k1'' 3), majorInput = ''physics'',
              isLoading = False, alerts = [], generatorCalls = []\<rparr>"

section \<open>Degree bookkeeping\<close>

text \<open>The number of endpoint slots of the link list that name a given id.\<close>

definition endpointOccurrences :: "LinkData list \<Rightarrow> string \<Rightarrow> nat" where
  "endpointOccurrences ls k =
     length (filter (\<lambda>l. endpointId (source l) = k) ls)
   + length (filter (\<lambda>l. endpointId (target l) = k) ls)"

lemma bumpCount_apply:
  "(case bumpCount cc k j of None \<Rightarrow> 0 | Some c \<Rightarrow> c) =
   (case cc j of None \<Rightarrow> 0 | Some c \<Rightarrow> c) + (if j = k then 1 else 0)"
  by (simp add: bumpCount_def)

lemma countLink_apply:
  "(case countLink l cc j of None \<Rightarrow> 0 | Some c \<Rightarrow> c) =
   (case cc j of None \<Rightarrow> 0 | Some c \<Rightarrow> c)
   + (if endpointId (source l) = j then 1 else 0)
   + (if endpointId (target l) = j then 1 else 0)"
  unfolding countLink_def Let_def bumpCount_apply by auto

lemma fold_countLink_apply:
  "(case fold countLink ls cc j of None \<Rightarrow> 0 | Some c \<Rightarrow> c) =
   (case cc j of None \<Rightarrow> 0 | Some c \<Rightarrow> c) + endpointOccurrences ls j"
proof (induction ls arbitrary: cc)
  case Nil
  show ?case by (simp add: endpointOccurrences_def)
next
  case (Cons l ls)
  have "(case fold countLink (l # ls) cc j of None \<Rightarrow> 0 | Some c \<Rightarrow> c) =
        (case countLink l cc j of None \<Rightarrow> 0 | Some c \<Rightarrow> c) + endpointOccurrences ls j"
    using Cons.IH [of "countLink l cc"] by simp
  also have "\<dots> = (case cc j of None \<Rightarrow> 0 | Some c \<Rightarrow> c) + endpointOccurrences (l # ls) j"
    unfolding countLink_apply by (simp add: endpointOccurrences_def)
  finally show ?case .
qed

lemma degreeOf_occurrences: "degreeOf ls k = endpointOccurrences ls k"
  using fold_countLink_apply [of ls Map.empty k]
  by (simp add: degreeOf_def connectionCounts_def)





section \<open>Generation failure\<close>

text \<open>
  C8. When the awaited generator call fails, the document and the selection are what they
  were, exactly one alert is added and it does not depend on the error, the generator has
  been called exactly once (no retry), and the busy flag is off again.
\<close>

theorem handleGenerate_failure:
  assumes "truthyStr (majorInput st)" and "generate (majorInput st) = Inl err"
  shows "appData (handleGenerate generate st) = appData st
       \<and> selectedNode (handleGenerate generate st) = selectedNode st
       \<and> alerts (handleGenerate generate st) = alerts st @ [GenerationFailedAlert]
       \<and> generatorCalls (handleGenerate generate st) = generatorCalls st @ [majorInput st]
       \<and> isLoading (handleGenerate generate st) = False"
  using assms by (simp add: handleGenerate_def Let_def)

theorem handleGenerate_failure_witness:
  "truthyStr (majorInput idleApp)
   \<and> (\<lambda>_. Inl (GenerationError ''quota'')) (majorInput idleApp) = Inl (GenerationError ''quota'')
   \<and> appData (handleGenerate (\<lambda>_. Inl (GenerationError ''quota'')) idleApp) = leafDoc
   \<and> selectedNode (handleGenerate (\<lambda>_. Inl (GenerationError ''quota'')) idleApp)
       = Some (mkNode ''k1'' 3)
   \<and> alerts (handleGenerate (\<lambda>_. Inl (GenerationError ''quota'')) idleApp)
       = [GenerationFailedAlert]
   \<and> generatorCalls (handleGenerate (\<lambda>_. Inl (GenerationError ''quota'')) idleApp)
       = [''physics'']"
proof -
  have h1: "truthyStr (majorInput idleApp)"
    by (simp add: idleApp_def truthyStr_def)
  have h2: "(\<lambda>_. Inl (GenerationError ''quota'')) (majorInput idleApp)
            = (Inl (GenerationError ''quota'') :: GenerationError + GraphData)"
    by simp
  show ?thesis
    using handleGenerate_failure [OF h1 h2] h1 by (simp add: idleApp_def)
qed

section \<open>Direct relations of the inspector\<close>

lemma relateLink_fields:
  "upstream (relateLink data sel l r) =
     upstream r @ (case neighbourOf data sel l of
                     Some n \<Rightarrow> if layer n < layer sel then [n] else []
                   | None \<Rightarrow> [])"
  "downstream (relateLink data sel l r) =
     downstream r @ (case neighbourOf data sel l of
                       Some n \<Rightarrow> if layer sel < layer n then [n] else []
                     | None \<Rightarrow> [])"
  "relevantLinks (relateLink data sel l r) =
     relevantLinks r @ (if neighbourOf data sel l \<noteq> None then [l] else [])"
  by (auto simp: relateLink_def neighbourOf_def Let_def truthyStr_def split: option.splits)

lemma fold_relateLink_fields:
  "upstream (fold (relateLink data sel) ls r) =
     upstream r @ filter (\<lambda>n. layer n < layer sel) (List.map_filter (neighbourOf data sel) ls)"
  "downstream (fold (relateLink data sel) ls r) =
     downstream r @ filter (\<lambda>n. layer sel < layer n) (List.map_filter (neighbourOf data sel) ls)"
  "relevantLinks (fold (relateLink data sel) ls r) =
     relevantLinks r @ filter (\<lambda>l. neighbourOf data sel l \<noteq> None) ls"
  by (induction ls arbitrary: r;
      auto simp: relateLink_fields split: option.splits)+

text \<open>
  C10 as stated fails for a neighbour whose id is the empty string: the guard
  \<^verbatim>\<open>if (otherId)\<close> skips it, although it resolves to a node of a smaller layer.
\<close>

theorem directRelations_empty_id_counterexample:
  "mkLink [] ''b'' \<in> set (links emptyIdDoc)
   \<and> endpointId (target (mkLink [] ''b'')) = nodeId (mkNode ''b'' 1)
   \<and> nodeMap emptyIdDoc (endpointId (source (mkLink [] ''b''))) = Some (mkNode [] 0)
   \<and> layer (mkNode [] 0) < layer (mkNode ''b'' 1)
   \<and> upstream (directRelations emptyIdDoc (Some (mkNode ''b'' 1))) = []
   \<and> relevantLinks (directRelations emptyIdDoc (Some (mkNode ''b'' 1))) = []"
  by (simp add: emptyIdDoc_def mkNode_def mkLink_def nodeMap_def directRelations_def
      relateLink_def truthyStr_def)

text \<open>
  C10, amended. For a selected node, the neighbours are the nodes found for the other
  endpoint of each link that names the selected id, when that endpoint's id is not the
  empty string. In document order of the links, \<open>upstream\<close> lists the neighbours of
  strictly smaller layer, \<open>downstream\<close> those of strictly larger layer, and
  \<open>relevantLinks\<close> every link that has a neighbour; so a neighbour on the selected
  node's own layer is in neither list while its link is in the link list.
\<close>

theorem directRelations_partition:
  "upstream (directRelations data (Some sel)) =
     filter (\<lambda>n. layer n < layer sel) (List.map_filter (neighbourOf data sel) (links data))
   \<and> downstream (directRelations data (Some sel)) =
     filter (\<lambda>n. layer sel < layer n) (List.map_filter (neighbourOf data sel) (links data))
   \<and> relevantLinks (directRelations data (Some sel)) =
     filter (\<lambda>l. neighbourOf data sel l \<noteq> None) (links data)
   \<and> (l \<in> set (links data) \<and> neighbourOf data sel l = Some n \<and> layer n = layer sel \<longrightarrow>
        n \<notin> set (upstream (directRelations data (Some sel)))
        \<and> n \<notin> set (downstream (directRelations data (Some sel)))
        \<and> l \<in> set (relevantLinks (directRelations data (Some sel))))"
  by (auto simp: directRelations_def fold_relateLink_fields)

theorem directRelations_partition_witness:
  "mkLink ''b2'' ''b'' \<in> set (links starDoc)
   \<and> neighbourOf starDoc (mkNode ''b'' 1) (mkLink ''b2'' ''b'') = Some (mkNode ''b2'' 1)
   \<and> layer (mkNode ''b2'' 1) = layer (mkNode ''b'' 1)
   \<and> upstream (directRelations starDoc (Some (mkNode ''b'' 1))) = [mkNode ''a'' 0]
   \<and> downstream (directRelations starDoc (Some (mkNode ''b'' 1))) = [mkNode ''c'' 2]
   \<and> relevantLinks (directRelations starDoc (Some (mkNode ''b'' 1))) = links starDoc
   \<and> mkNode ''b2'' 1 \<notin> set (upstream (directRelations starDoc (Some (mkNode ''b'' 1))))
   \<and> mkNode ''b2'' 1 \<notin> set (downstream (directRelations starDoc (Some (mkNode ''b'' 1))))
   \<and> mkLink ''b2'' ''b'' \<in> set (relevantLinks (directRelations starDoc (Some (mkNode ''b'' 1))))"
  using directRelations_partition [of starDoc "mkNode ''b'' 1" "mkLink ''b2'' ''b''" "mkNode ''b2'' 1"]
  by (simp add: starDoc_def mkNode_def mkLink_def neighbourOf_def)


section \<open>Projection\<close>



section \<open>Layout\<close>

lemma layoutLayer_nodes: "map node (layoutLayer displayed L) = filter (\<lambda>n. layer n = L) displayed"
  by (simp add: layoutLayer_def Let_def placeNode_def split_def map_snd_enumerate
      o_def)

lemma nodes3D_concat:
  "nodes3D displayed = layoutLayer displayed 0 @ layoutLayer displayed 1
                       @ layoutLayer displayed 2 @ layoutLayer displayed 3"
  by (simp add: nodes3D_def)

text \<open>
  C6. For a layer L of 0..3 and the i-th of the displayed nodes of that layer (count of
  them), the layout entry is that node at x = r cos \<theta>, y = (L - 1.5) LAYER_GAP,
  z = r sin \<theta>, where for L of 0..2 r = BASE_RADIUS_TOP + L RADIUS_INCREMENT and
  \<theta> = i (2 pi / count) + L pi / 4, and for L = 3
  r = (BASE_RADIUS_TOP + 3 RADIUS_INCREMENT) + sqrt (i / count) 80 and
  \<theta> = i pi (3 - sqrt 5). The entry is in the result of the layout, and the entries
  of a layer are its displayed nodes in document order. The layout is a function of the
  displayed list alone.
\<close>

theorem nodes3D_positions:
  assumes "L \<in> {0, 1, 2, 3}" and "i < length (filter (\<lambda>n. layer n = L) displayed)"
  shows "(let layerNodes = filter (\<lambda>n. layer n = L) displayed;
              count = length layerNodes;
              r = (if L = 3
                   then (BASE_RADIUS_TOP + 3 * RADIUS_INCREMENT) + sqrt (real i / real count) * 80
                   else BASE_RADIUS_TOP + real_of_int L * RADIUS_INCREMENT);
              theta = (if L = 3 then real i * (pi * (3 - sqrt 5))
                       else real i * (2 * pi / real count) + real_of_int L * (pi / 4))
          in layoutLayer displayed L ! i =
               \<lparr>x = r * cos theta, y = (real_of_int L - 1.5) * LAYER_GAP,
                z = r * sin theta, node = layerNodes ! i\<rparr>
             \<and> layoutLayer displayed L ! i \<in> set (nodes3D displayed)
             \<and> map node (layoutLayer displayed L) = layerNodes)"
proof -
  let ?ns = "filter (\<lambda>n. layer n = L) displayed"
  have len: "length (layoutLayer displayed L) = length ?ns"
    by (simp add: layoutLayer_def Let_def)
  have nth: "layoutLayer displayed L ! i = placeNode L (length ?ns) i (?ns ! i)"
    using assms(2) by (simp add: layoutLayer_def Let_def nth_enumerate_eq)
  have mem: "layoutLayer displayed L ! i \<in> set (layoutLayer displayed L)"
    using assms(2) len by simp
  have sub: "set (layoutLayer displayed L) \<subseteq> set (nodes3D displayed)"
    using assms(1) by (auto simp: nodes3D_concat)
  have pos: "placeNode L (length ?ns) i (?ns ! i) =
      \<lparr>x = (if L = 3
             then (BASE_RADIUS_TOP + 3 * RADIUS_INCREMENT) + sqrt (real i / real (length ?ns)) * 80
             else BASE_RADIUS_TOP + real_of_int L * RADIUS_INCREMENT)
            * cos (if L = 3 then real i * (pi * (3 - sqrt 5))
                   else real i * (2 * pi / real (length ?ns)) + real_of_int L * (pi / 4)),
       y = (real_of_int L - 1.5) * LAYER_GAP,
       z = (if L = 3
             then (BASE_RADIUS_TOP + 3 * RADIUS_INCREMENT) + sqrt (real i / real (length ?ns)) * 80
             else BASE_RADIUS_TOP + real_of_int L * RADIUS_INCREMENT)
            * sin (if L = 3 then real i * (pi * (3 - sqrt 5))
                   else real i * (2 * pi / real (length ?ns)) + real_of_int L * (pi / 4)),
       node = ?ns ! i\<rparr>"
    by (simp add: placeNode_def Let_def getLayerRadius_def mult.commute)
  show ?thesis
    unfolding Let_def using nth pos mem sub layoutLayer_nodes [of displayed L] by auto
qed

theorem nodes3D_positions_witness:
  "(0::int) \<in> {0, 1, 2, 3}
   \<and> (0::nat) < length (filter (\<lambda>n. layer n = 0) (nodes starDoc))
   \<and> layoutLayer (nodes starDoc) 0 ! 0 = \<lparr>x = 80, y = - 270, z = 0, node = mkNode ''a'' 0\<rparr>
   \<and> \<lparr>x = 80, y = - 270, z = 0, node = mkNode ''a'' 0\<rparr> \<in> set (nodes3D (nodes starDoc))"
proof -
  have h1: "(0::int) \<in> {0, 1, 2, 3}" by simp
  have h2: "(0::nat) < length (filter (\<lambda>n. layer n = 0) (nodes starDoc))"
    by (simp add: starDoc_def mkNode_def)
  note t = nodes3D_positions [OF h1 h2, unfolded Let_def]
  have e: "layoutLayer (nodes starDoc) 0 ! 0 = \<lparr>x = 80, y = - 270, z = 0, node = mkNode ''a'' 0\<rparr>"
    using t by (simp add: starDoc_def mkNode_def BASE_RADIUS_TOP_def LAYER_GAP_def)
  have m: "layoutLayer (nodes starDoc) 0 ! 0 \<in> set (nodes3D (nodes starDoc))"
    using t by blast
  show ?thesis
    using h1 h2 e m by metis
qed

section \<open>Rendered links\<close>

lemma collectEntries_total:
  "(\<And>l. l \<in> set ls \<Longrightarrow> f l = Inr (g l)) \<Longrightarrow>
     collectEntries (map f ls) = Inr (List.map_filter g ls)"
proof (induction ls)
  case Nil
  show ?case by simp
next
  case (Cons l ls)
  then have tl: "collectEntries (map f ls) = Inr (List.map_filter g ls)" by simp
  have hd: "f l = Inr (g l)" using Cons.prems by simp
  show ?case
    by (cases "g l") (simp_all add: hd tl)
qed

lemma find_id_Some:
  "i \<in> set (map (\<lambda>n. nodeId (node n)) pns) \<Longrightarrow> \<exists>n. find (\<lambda>n. nodeId (node n) = i) pns = Some n"
  by (cases "find (\<lambda>n. nodeId (node n) = i) pns") (auto simp: find_None_iff)

lemma linkEntry_Inr: "linkEntry pns sel fc l = Inr (entryOf pns sel fc l)"
proof -
  have "\<exists>e. linkEntry pns sel fc l = Inr e"
  proof (cases "endpointId (source l) \<in> set (map (\<lambda>n. nodeId (node n)) pns)
              \<and> endpointId (target l) \<in> set (map (\<lambda>n. nodeId (node n)) pns)")
    case True
    then obtain sn tn where
      "find (\<lambda>n. nodeId (node n) = endpointId (source l)) pns = Some sn"
      "find (\<lambda>n. nodeId (node n) = endpointId (target l)) pns = Some tn"
      using find_id_Some by blast
    then show ?thesis
      using True by (simp add: linkEntry_def Let_def)
  next
    case False
    then show ?thesis by (auto simp: linkEntry_def Let_def)
  qed
  then show ?thesis by (auto simp: entryOf_def)
qed

lemma entryOf_Some_iff:
  "(\<exists>e. entryOf pns sel fc l = Some e) \<longleftrightarrow>
     endpointId (source l) \<in> set (map (\<lambda>n. nodeId (node n)) pns)
     \<and> endpointId (target l) \<in> set (map (\<lambda>n. nodeId (node n)) pns)
     \<and> (truthy sel \<longrightarrow> endpointId (source l) \<in> fc \<and> endpointId (target l) \<in> fc)"
proof (cases "endpointId (source l) \<in> set (map (\<lambda>n. nodeId (node n)) pns)
              \<and> endpointId (target l) \<in> set (map (\<lambda>n. nodeId (node n)) pns)")
  case True
  then obtain sn tn where
    "find (\<lambda>n. nodeId (node n) = endpointId (source l)) pns = Some sn"
    "find (\<lambda>n. nodeId (node n) = endpointId (target l)) pns = Some tn"
    using find_id_Some by blast
  then show ?thesis
    using True by (simp add: entryOf_def linkEntry_def Let_def)
next
  case False
  then show ?thesis by (auto simp: entryOf_def linkEntry_def Let_def)
qed

lemma entryOf_highlighted:
  "entryOf pns sel fc l = Some e \<Longrightarrow> isHighlighted e = truthy sel"
  by (auto simp: entryOf_def linkEntry_def Let_def split: if_splits option.splits sum.splits)

lemma activeLinks_Inr:
  "activeLinks data pns sel fc =
     Inr (sort_key avgZ (List.map_filter (entryOf pns sel fc) (links data)))"
  using collectEntries_total [of "links data" "linkEntry pns sel fc" "entryOf pns sel fc"]
  by (simp add: activeLinks_def linkEntry_Inr)

lemma projected_ids:
  "set (map (\<lambda>n. nodeId (node n)) (projectedNodes w h (nodes3D dn) rot))
   = nodeId ` {n \<in> set dn. layer n \<in> {0, 1, 2, 3}}"
proof -
  have "map (\<lambda>n. nodeId (node n)) (projectedNodes w h (nodes3D dn) rot)
        = map nodeId (map node (nodes3D dn))"
    by (simp add: projectedNodes_def o_def Node3D.defs ProjectedNode.defs)
  also have "map node (nodes3D dn) =
      filter (\<lambda>n. layer n = 0) dn @ filter (\<lambda>n. layer n = 1) dn
      @ filter (\<lambda>n. layer n = 2) dn @ filter (\<lambda>n. layer n = 3) dn"
    by (simp add: nodes3D_concat layoutLayer_nodes)
  finally show ?thesis by auto
qed

lemma in_set_map_filter:
  "b \<in> set (List.map_filter f as) \<longleftrightarrow> (\<exists>a \<in> set as. f a = Some b)"
  by (induction as) (auto split: option.splits)

text \<open>
  C7. One render never throws while selecting links, and a link of the document has an
  entry in the rendered link list exactly when both endpoint ids are ids of displayed
  nodes that the layout placed (layer 0..3) and, when a selection is active, both are in
  the lineage set. Every rendered entry comes from such a link; no entry exists for any
  other link, and with an active selection every rendered entry is highlighted.
\<close>

theorem renderedLinks_membership:
  "\<exists>als. renderedLinks data w h showAll sel fc rot = Inr als
     \<and> (\<forall>l \<in> set (links data).
          (\<exists>e \<in> set als.
             linkEntry (projectedNodes w h (nodes3D (displayNodes data showAll sel fc)) rot)
               sel fc l = Inr (Some e))
          \<longleftrightarrow>
          (endpointId (source l) \<in> nodeId ` {n \<in> set (displayNodes data showAll sel fc).
                                                 layer n \<in> {0, 1, 2, 3}}
           \<and> endpointId (target l) \<in> nodeId ` {n \<in> set (displayNodes data showAll sel fc).
                                                   layer n \<in> {0, 1, 2, 3}}
           \<and> (truthy sel \<longrightarrow> endpointId (source l) \<in> fc \<and> endpointId (target l) \<in> fc)))
     \<and> (\<forall>e \<in> set als.
          (\<exists>l \<in> set (links data).
             linkEntry (projectedNodes w h (nodes3D (displayNodes data showAll sel fc)) rot)
               sel fc l = Inr (Some e))
          \<and> isHighlighted e = truthy sel)"
proof -
  let ?pns = "projectedNodes w h (nodes3D (displayNodes data showAll sel fc)) rot"
  let ?als = "sort_key avgZ (List.map_filter (entryOf ?pns sel fc) (links data))"
  have r: "renderedLinks data w h showAll sel fc rot = Inr ?als"
    by (simp add: renderedLinks_def activeLinks_Inr)
  have mem: "e \<in> set ?als \<longleftrightarrow> (\<exists>l \<in> set (links data). entryOf ?pns sel fc l = Some e)" for e
    by (simp add: in_set_map_filter)
  have a: "(\<exists>e \<in> set ?als. linkEntry ?pns sel fc l = Inr (Some e))
           \<longleftrightarrow> (\<exists>e. entryOf ?pns sel fc l = Some e)" if "l \<in> set (links data)" for l
    using that mem by (auto simp: linkEntry_Inr)
  have b: "(\<exists>l \<in> set (links data). linkEntry ?pns sel fc l = Inr (Some e))
           \<and> isHighlighted e = truthy sel" if "e \<in> set ?als" for e
    using that mem [of e] entryOf_highlighted by (auto simp: linkEntry_Inr)
  show ?thesis
    using r a b entryOf_Some_iff [of ?pns sel fc] projected_ids [of w h _ rot]
    by (intro exI [of _ ?als]) (simp only: simp_thms, blast)
qed

theorem renderedLinks_membership_witness:
  "\<exists>als. renderedLinks starDoc 800 600 False (Some ''a'') {''a'', ''b'', ''c''} 0 = Inr als
     \<and> mkLink ''b'' ''a'' \<in> set (links starDoc)
     \<and> mkLink ''b2'' ''b'' \<in> set (links starDoc)
     \<and> (\<exists>e \<in> set als.
          linkEntry (projectedNodes 800 600
                       (nodes3D (displayNodes starDoc False (Some ''a'') {''a'', ''b'', ''c''})) 0)
            (Some ''a'') {''a'', ''b'', ''c''} (mkLink ''b'' ''a'') = Inr (Some e))
     \<and> \<not> (\<exists>e \<in> set als.
          linkEntry (projectedNodes 800 600
                       (nodes3D (displayNodes starDoc False (Some ''a'') {''a'', ''b'', ''c''})) 0)
            (Some ''a'') {''a'', ''b'', ''c''} (mkLink ''b2'' ''b'') = Inr (Some e))"
proof -
  let ?fc = "{''a'', ''b'', ''c''}"
  let ?dn = "displayNodes starDoc False (Some ''a'') ?fc"
  let ?pns = "projectedNodes 800 600 (nodes3D ?dn) 0"
  let ?vis = "nodeId ` {n \<in> set ?dn. layer n \<in> {0, 1, 2, 3}}"
  from renderedLinks_membership [of starDoc 800 600 False "Some ''a''" ?fc 0]
  obtain als where all: "renderedLinks starDoc 800 600 False (Some ''a'') ?fc 0 = Inr als
     \<and> (\<forall>l \<in> set (links starDoc).
          (\<exists>e \<in> set als. linkEntry ?pns (Some ''a'') ?fc l = Inr (Some e))
          \<longleftrightarrow>
          (endpointId (source l) \<in> ?vis \<and> endpointId (target l) \<in> ?vis
           \<and> (truthy (Some ''a'') \<longrightarrow> endpointId (source l) \<in> ?fc \<and> endpointId (target l) \<in> ?fc)))
     \<and> (\<forall>e \<in> set als.
          (\<exists>l \<in> set (links starDoc). linkEntry ?pns (Some ''a'') ?fc l = Inr (Some e))
          \<and> isHighlighted e = truthy (Some ''a''))" ..
  then have r: "renderedLinks starDoc 800 600 False (Some ''a'') ?fc 0 = Inr als"
    and iff: "\<And>l. l \<in> set (links starDoc) \<Longrightarrow>
          (\<exists>e \<in> set als. linkEntry ?pns (Some ''a'') ?fc l = Inr (Some e))
          \<longleftrightarrow>
          (endpointId (source l) \<in> ?vis \<and> endpointId (target l) \<in> ?vis
           \<and> (truthy (Some ''a'') \<longrightarrow> endpointId (source l) \<in> ?fc \<and> endpointId (target l) \<in> ?fc))"
    by blast+
  have m1: "mkLink ''b'' ''a'' \<in> set (links starDoc)"
    and m2: "mkLink ''b2'' ''b'' \<in> set (links starDoc)"
    by (simp_all add: starDoc_def)
  have dn: "?dn = nodes starDoc"
    by (simp add: displayNodes_def isDisplayed_def starDoc_def mkNode_def)
  have "mkNode ''a'' 0 \<in> {n \<in> set ?dn. layer n \<in> {0, 1, 2, 3}}"
    and "mkNode ''b'' 1 \<in> {n \<in> set ?dn. layer n \<in> {0, 1, 2, 3}}"
    unfolding dn by (simp_all add: starDoc_def mkNode_def)
  then have "nodeId (mkNode ''a'' 0) \<in> ?vis" and "nodeId (mkNode ''b'' 1) \<in> ?vis"
    by (blast intro: imageI)+
  then have va: "''a'' \<in> ?vis" and vb: "''b'' \<in> ?vis"
    by (simp_all add: mkNode_def)
  have "\<exists>e \<in> set als. linkEntry ?pns (Some ''a'') ?fc (mkLink ''b'' ''a'') = Inr (Some e)"
    unfolding iff [OF m1] using va vb by (simp add: mkLink_def)
  moreover have "\<not> (\<exists>e \<in> set als. linkEntry ?pns (Some ''a'') ?fc (mkLink ''b2'' ''b'') = Inr (Some e))"
    unfolding iff [OF m2] by (simp add: mkLink_def truthyStr_def)
  ultimately show ?thesis
    using r m1 m2 by blast
qed


section \<open>Lineage\<close>


















section \<open>Camera easing\<close>
















section \<open>Target rotation on selection\<close>







lemma targetDown_id: "t - c \<le> pi \<Longrightarrow> targetDown c t = t"
  by (subst targetDown.simps) simp

lemma targetUp_id: "- pi \<le> t - c \<Longrightarrow> targetUp c t = t"
  by (subst targetUp.simps) simp

lemma nearest_target_id:
  "- pi \<le> t - c \<Longrightarrow> t - c \<le> pi \<Longrightarrow> targetUp c (targetDown c t) = t"
  by (simp add: targetDown_id targetUp_id)




lemma sqrt5_bounds: "2 < sqrt 5" "sqrt 5 < 3"
  by (simp_all add: real_less_rsqrt real_less_lsqrt)

text \<open>
  The index taken in the whole document and the index taken by the layout differ once the
  filter hides an earlier node of layer 3: here the selected node is laid out at angle
  0 while the target is computed from the golden angle.
\<close>

lemma target_index_divergence:
  "focusChainOf maskedDoc (Some ''k2'') = {''k2'', ''c1''}
   \<and> displayNodes maskedDoc False (Some ''k2'') {''k2'', ''c1''} = [mkNode ''c1'' 2, mkNode ''k2'' 3]
   \<and> layoutLayer [mkNode ''c1'' 2, mkNode ''k2'' 3] 3 ! 0
       = \<lparr>x = 500 * cos 0, y = 270, z = 500 * sin 0, node = mkNode ''k2'' 3\<rparr>
   \<and> selectionTarget maskedDoc (Some ''k2'') 0 None = Some (pi / 2 - pi * (3 - sqrt 5))
   \<and> (\<forall>k::int. pi / 2 - pi * (3 - sqrt 5) \<noteq> pi / 2 - 0 + 2 * pi * of_int k)"
proof -
  have maps: "buildMaps maskedDoc = ([(''k1'', [''c1'']), (''k2'', [''c1''])], [(''c1'', [''k1'', ''k2''])])"
    by (simp add: buildMaps_def maskedDoc_def mkNode_def mkLink_def nodeMap_def addLink_def
        orientLink_def adjPush_def adjGet_def truthyStr_def)
  have a: "focusChainOf maskedDoc (Some ''k2'') = {''k2'', ''c1''}"
    by (simp add: focusChainOf_def maps truthyStr_def adjGet_def insert_commute)
  have b: "displayNodes maskedDoc False (Some ''k2'') {''k2'', ''c1''}
           = [mkNode ''c1'' 2, mkNode ''k2'' 3]"
    by (simp add: displayNodes_def isDisplayed_def maskedDoc_def mkNode_def mkLink_def
        truthyStr_def degreeOf_occurrences endpointOccurrences_def)
  have c: "layoutLayer [mkNode ''c1'' 2, mkNode ''k2'' 3] 3 ! 0
       = \<lparr>x = 500 * cos 0, y = 270, z = 500 * sin 0, node = mkNode ''k2'' 3\<rparr>"
    by (simp add: layoutLayer_def placeNode_def mkNode_def getLayerRadius_def
        BASE_RADIUS_TOP_def RADIUS_INCREMENT_def LAYER_GAP_def)
  have m2: "pi * 2 < pi * sqrt 5" and m3: "pi * sqrt 5 < pi * 3"
    using sqrt5_bounds pi_gt_zero by simp_all
  have "selectionTarget maskedDoc (Some ''k2'') 0 None
        = Some (targetUp 0 (targetDown 0 (pi / 2 - pi * (3 - sqrt 5))))"
    by (simp add: selectionTarget_def maskedDoc_def mkNode_def truthyStr_def)
  moreover have "targetUp 0 (targetDown 0 (pi / 2 - pi * (3 - sqrt 5))) = pi / 2 - pi * (3 - sqrt 5)"
    by (rule nearest_target_id) (use m2 m3 pi_gt_zero in \<open>simp_all add: algebra_simps\<close>)
  ultimately have d: "selectionTarget maskedDoc (Some ''k2'') 0 None
                      = Some (pi / 2 - pi * (3 - sqrt 5))"
    by simp
  have e: "pi / 2 - pi * (3 - sqrt 5) \<noteq> pi / 2 - 0 + 2 * pi * of_int k" for k :: int
  proof
    assume "pi / 2 - pi * (3 - sqrt 5) = pi / 2 - 0 + 2 * pi * of_int k"
    then have "pi * (sqrt 5 - 3) = pi * (2 * of_int k)"
      by (simp add: algebra_simps)
    then have eq: "sqrt 5 - 3 = 2 * of_int k"
      using pi_gt_zero by simp
    then have r: "- 1 < (2 * real_of_int k)" "(2 * real_of_int k) < 0"
      using sqrt5_bounds by simp_all
    have "k \<le> - 1 \<or> 0 \<le> k" by linarith
    then show False
    proof
      assume "k \<le> - 1"
      then have "real_of_int k \<le> - 1" by linarith
      with r(1) show False by linarith
    next
      assume "0 \<le> k"
      then have "0 \<le> real_of_int k" by simp
      with r(2) show False by linarith
    qed
  qed
  from a b c d e show ?thesis by blast
qed

end
